theory Spec2Isabelle
  imports Main "HOL-Library.Sublist"
begin

section \<open>The input device base class\<close>

text \<open>
  A shallow embedding of \<^verbatim>\<open>models/hardwareInterface/src/InputDevice.cpp\<close>: the
  constructor, \<^verbatim>\<open>isOpen()\<close> and \<^verbatim>\<open>update()\<close> of \<^verbatim>\<open>idf::InputDevice\<close>.
\<close>

subsection \<open>Data\<close>

text \<open>
  The three members the constructor initialises, in the order of its initialiser list.
  The class declaration (\<^verbatim>\<open>InputDevice.hh\<close>) is not part of the fragment, so the type of
  \<^verbatim>\<open>delay\<close> is a parameter: all the source asks of it is that it can be initialised
  from the literal \<^verbatim>\<open>0\<close>.
\<close>

record 'd InputDevice =
  delay :: 'd
  mOpen :: bool
  enabled :: bool

text \<open>
  The exception thrown by \<^verbatim>\<open>update()\<close>. Its class (\<^verbatim>\<open>IOException.hh\<close>) is not part of
  the fragment either; the source only builds it from a message string.
\<close>

datatype error = IOException string

text \<open>
  A member function takes the object and gives back what the call produced (\<open>Inl\<close> an
  exception in flight, \<open>Inr\<close> the returned value) together with the object afterwards.
\<close>

type_synonym ('d, 'a) member = "'d InputDevice \<Rightarrow> (error + 'a) \<times> 'd InputDevice"

subsection \<open>Stream output\<close>

text \<open>
  \<^verbatim>\<open>operator<<\<close> of an \<^verbatim>\<open>std::ostringstream\<close> on an \<^verbatim>\<open>int\<close>, with the stream's
  default flags: the decimal digits, most significant first. Line numbers are positive,
  so only naturals are rendered.
\<close>

definition digit :: "nat \<Rightarrow> char" where
  "digit d = char_of (of_char CHR ''0'' + d)"

fun decimal :: "nat \<Rightarrow> string" where
  "decimal n = (if n < 10 then [digit n] else decimal (n div 10) @ [digit (n mod 10)])"

declare decimal.simps [simp del]

text \<open>
  \<^verbatim>\<open>__LINE__\<close> where \<^verbatim>\<open>update()\<close> uses it: the token stands on line 20 of the file.
\<close>

definition LINE :: nat where
  "LINE = 20"

subsection \<open>Operations\<close>

text \<open>\<^verbatim>\<open>InputDevice::InputDevice()\<close>\<close>

definition InputDevice_ctor :: "'d::zero InputDevice" where
  "InputDevice_ctor = \<lparr>delay = 0, mOpen = False, enabled = True\<rparr>"

text \<open>\<^verbatim>\<open>bool InputDevice::isOpen() const\<close>\<close>

definition isOpen :: "('d, bool) member" where
  "isOpen this = (Inr (mOpen this), this)"

text \<open>
  \<^verbatim>\<open>void InputDevice::update()\<close>. \<^verbatim>\<open>__FILE__\<close> is the path the translation unit was
  compiled under, which the build decides: it is the parameter \<open>FILE\<close>. The local
  stream \<open>oss\<close> is written left to right, as the chain of \<^verbatim>\<open><<\<close> does.
\<close>

definition update :: "string \<Rightarrow> ('d, unit) member" where
  "update FILE this =
    (if \<not> mOpen this then
       let oss = [];
           oss = oss @ FILE;
           oss = oss @ '':'';
           oss = oss @ decimal LINE;
           oss = oss @ '' Device is not open.''
       in (Inl (IOException oss), this)
     else (Inr (), this))"

subsection \<open>Call sequences\<close>

text \<open>
  What a client can do with an object through the member functions above: after
  constructing it, call \<^verbatim>\<open>isOpen()\<close> and \<^verbatim>\<open>update()\<close> in any order, any number of times
  (catching what \<^verbatim>\<open>update()\<close> throws). \<open>after\<close> is the object after such a sequence.
\<close>

datatype call = IsOpen | Update

fun perform :: "string \<Rightarrow> call \<Rightarrow> 'd InputDevice \<Rightarrow> 'd InputDevice" where
  "perform FILE IsOpen this = snd (isOpen this)"
| "perform FILE Update this = snd (update FILE this)"

fun after :: "string \<Rightarrow> call list \<Rightarrow> 'd InputDevice \<Rightarrow> 'd InputDevice" where
  "after FILE [] this = this"
| "after FILE (c # cs) this = after FILE cs (perform FILE c this)"

section \<open>Properties\<close>

subsection \<open>Auxiliary facts\<close>

lemma decimal_LINE: "decimal LINE = ''20''"
  by code_simp

lemma update_closed:
  "\<not> mOpen this \<Longrightarrow>
    update FILE this = (Inl (IOException (FILE @ '':20 Device is not open.'')), this)"
  by (simp add: update_def decimal_LINE)

lemma update_open: "mOpen this \<Longrightarrow> update FILE this = (Inr (), this)"
  by (simp add: update_def)

lemma update_state: "snd (update FILE this) = this"
  by (cases "mOpen this") (simp_all add: update_closed update_open)

lemma perform_state: "perform FILE c this = this"
  by (cases c) (simp_all add: isOpen_def update_state)

lemma perform_mOpen: "mOpen (perform FILE c this) = mOpen this"
  by (simp add: perform_state)

lemma after_mOpen: "mOpen (after FILE cs this) = mOpen this"
proof (induction cs arbitrary: this)
  case Nil
  show ?case by simp
next
  case (Cons c cs)
  have "mOpen (after FILE (c # cs) this) = mOpen (perform FILE c this)"
    using Cons.IH [of "perform FILE c this"] by simp
  then show ?case by (simp only: perform_mOpen)
qed

lemma not_open_in_message:
  "sublist ''not open'' (FILE @ '':20 Device is not open.'')"
proof -
  have "FILE @ '':20 Device is not open.'' =
        (FILE @ '':20 Device is '') @ ''not open'' @ ''.''"
    by simp
  then show ?thesis
    unfolding sublist_def by blast
qed

subsection \<open>Construction\<close>

text \<open>
  C3: a freshly constructed device reports \<^verbatim>\<open>isOpen() == false\<close>: the constructor
  initialises the open flag to false, and \<^verbatim>\<open>isOpen()\<close> returns it.
\<close>

theorem fresh_device_not_open:
  "mOpen (InputDevice_ctor :: 'd::zero InputDevice) = False \<and>
   fst (isOpen (InputDevice_ctor :: 'd::zero InputDevice)) = Inr False"
  by (simp add: InputDevice_ctor_def isOpen_def)

text \<open>
  C4: a freshly constructed device has \<^verbatim>\<open>enabled == true\<close> and \<^verbatim>\<open>delay == 0\<close>.
\<close>

theorem fresh_device_enabled_delay:
  "enabled (InputDevice_ctor :: 'd::zero InputDevice) = True \<and>
   delay (InputDevice_ctor :: 'd::zero InputDevice) = 0"
  by (simp add: InputDevice_ctor_def)

subsection \<open>The guard of \<^verbatim>\<open>update()\<close>\<close>

text \<open>
  C1: for every device, \<^verbatim>\<open>update()\<close> throws the \<^verbatim>\<open>IOException\<close> exactly when
  \<^verbatim>\<open>isOpen()\<close> returns false, and returns normally exactly when \<^verbatim>\<open>isOpen()\<close> returns
  true.
\<close>

theorem update_throws_iff_not_open:
  "((\<exists>msg. fst (update FILE this) = Inl (IOException msg)) = (fst (isOpen this) = Inr False)) \<and>
   ((fst (update FILE this) = Inr ()) = (fst (isOpen this) = Inr True))"
  by (cases "mOpen this") (simp_all add: isOpen_def update_closed update_open)

theorem update_throws_iff_not_open_witness:
  "(\<exists>msg. fst (update ''InputDevice.cpp''
      \<lparr>delay = 0 :: int, mOpen = False, enabled = True\<rparr>) = Inl (IOException msg)) \<and>
   fst (update ''InputDevice.cpp''
      \<lparr>delay = 0 :: int, mOpen = True, enabled = True\<rparr>) = Inr ()"
  using update_throws_iff_not_open
      [of "''InputDevice.cpp''" "\<lparr>delay = 0 :: int, mOpen = False, enabled = True\<rparr>"]
    update_throws_iff_not_open
      [of "''InputDevice.cpp''" "\<lparr>delay = 0 :: int, mOpen = True, enabled = True\<rparr>"]
  by (simp add: isOpen_def)

text \<open>
  C2: whenever \<^verbatim>\<open>update()\<close> throws, the exception's message is the file name, a colon,
  the line number 20 in decimal and the text \<^verbatim>\<open> Device is not open.\<close>, in this order; so
  it names a source location and the reason, and \<^verbatim>\<open>not open\<close> occurs in it as a
  contiguous substring.
\<close>

theorem update_message:
  assumes "fst (update FILE this) = Inl e"
  shows "\<exists>msg. e = IOException msg \<and>
           msg = FILE @ '':'' @ decimal LINE @ '' Device is not open.'' \<and>
           decimal LINE = ''20'' \<and>
           sublist ''not open'' msg"
proof (cases "mOpen this")
  case True
  with assms show ?thesis by (simp add: update_open)
next
  case False
  with assms have "e = IOException (FILE @ '':20 Device is not open.'')"
    by (simp add: update_closed)
  then show ?thesis
    using not_open_in_message [of FILE] by (simp add: decimal_LINE)
qed

theorem update_message_witness:
  "fst (update ''InputDevice.cpp'' \<lparr>delay = 0 :: int, mOpen = False, enabled = True\<rparr>)
     = Inl (IOException ''InputDevice.cpp:20 Device is not open.'') \<and>
   sublist ''not open'' ''InputDevice.cpp:20 Device is not open.''"
proof -
  have h: "fst (update ''InputDevice.cpp'' \<lparr>delay = 0 :: int, mOpen = False, enabled = True\<rparr>)
             = Inl (IOException ''InputDevice.cpp:20 Device is not open.'')"
    by (simp add: update_closed)
  show ?thesis using h update_message [OF h] by simp
qed

text \<open>
  C5: when \<^verbatim>\<open>isOpen()\<close> is false, the call of \<^verbatim>\<open>update()\<close> leaves the whole object as
  it was: \<^verbatim>\<open>delay\<close>, the open flag and \<^verbatim>\<open>enabled\<close> are unchanged.
\<close>

theorem update_not_open_keeps_state:
  assumes "fst (isOpen this) = Inr False"
  shows "snd (update FILE this) = this \<and>
         delay (snd (update FILE this)) = delay this \<and>
         mOpen (snd (update FILE this)) = mOpen this \<and>
         enabled (snd (update FILE this)) = enabled this"
proof -
  from assms have "\<not> mOpen this" by (simp add: isOpen_def)
  then have "snd (update FILE this) = this" by (simp add: update_closed)
  then show ?thesis by simp
qed

theorem update_not_open_keeps_state_witness:
  "snd (update ''InputDevice.cpp'' \<lparr>delay = 7 :: int, mOpen = False, enabled = False\<rparr>)
     = \<lparr>delay = 7 :: int, mOpen = False, enabled = False\<rparr>"
proof -
  have h: "fst (isOpen \<lparr>delay = 7 :: int, mOpen = False, enabled = False\<rparr>) = Inr False"
    by (simp add: isOpen_def)
  show ?thesis using update_not_open_keeps_state [OF h, of "''InputDevice.cpp''"] by simp
qed

text \<open>
  C6: when \<^verbatim>\<open>isOpen()\<close> is true, \<^verbatim>\<open>update()\<close> of the base class does nothing: it
  returns normally and \<^verbatim>\<open>delay\<close>, the open flag and \<^verbatim>\<open>enabled\<close> are unchanged.
\<close>

theorem update_open_no_action:
  assumes "fst (isOpen this) = Inr True"
  shows "fst (update FILE this) = Inr () \<and>
         snd (update FILE this) = this \<and>
         delay (snd (update FILE this)) = delay this \<and>
         mOpen (snd (update FILE this)) = mOpen this \<and>
         enabled (snd (update FILE this)) = enabled this"
proof -
  from assms have "mOpen this" by (simp add: isOpen_def)
  then have "update FILE this = (Inr (), this)" by (rule update_open)
  then show ?thesis by simp
qed

theorem update_open_no_action_witness:
  "update ''InputDevice.cpp'' \<lparr>delay = 7 :: int, mOpen = True, enabled = False\<rparr>
     = (Inr (), \<lparr>delay = 7 :: int, mOpen = True, enabled = False\<rparr>)"
proof -
  have h: "fst (isOpen \<lparr>delay = 7 :: int, mOpen = True, enabled = False\<rparr>) = Inr True"
    by (simp add: isOpen_def)
  show ?thesis
    using update_open_no_action [OF h, of "''InputDevice.cpp''"] by (simp add: prod_eq_iff)
qed

subsection \<open>\<^verbatim>\<open>isOpen()\<close>\<close>

text \<open>
  C7: for every device, \<^verbatim>\<open>isOpen()\<close> returns the stored open flag, leaves the object
  (every member) unchanged, and throws nothing.
\<close>

theorem isOpen_reads_flag:
  "fst (isOpen this) = Inr (mOpen this) \<and>
   snd (isOpen this) = this \<and>
   delay (snd (isOpen this)) = delay this \<and>
   mOpen (snd (isOpen this)) = mOpen this \<and>
   enabled (snd (isOpen this)) = enabled this \<and>
   (\<forall>e. fst (isOpen this) \<noteq> Inl e)"
  by (simp add: isOpen_def)

subsection \<open>Sequences of calls\<close>

text \<open>
  C8: neither the constructor nor \<^verbatim>\<open>isOpen()\<close> nor \<^verbatim>\<open>update()\<close> sets the open flag to
  true: the constructor clears it and the two member functions keep it. So after any
  sequence of calls of \<^verbatim>\<open>isOpen()\<close> and \<^verbatim>\<open>update()\<close> on a freshly constructed device the
  flag is false, and \<^verbatim>\<open>update()\<close> throws there.
\<close>

theorem open_flag_never_set:
  "\<not> mOpen (InputDevice_ctor :: 'd::zero InputDevice) \<and>
   mOpen (snd (isOpen this)) = mOpen (this :: 'd InputDevice) \<and>
   mOpen (snd (update FILE this)) = mOpen this \<and>
   \<not> mOpen (after FILE cs (InputDevice_ctor :: 'd InputDevice)) \<and>
   fst (isOpen (after FILE cs (InputDevice_ctor :: 'd InputDevice))) = Inr False \<and>
   (\<exists>msg. fst (update FILE (after FILE cs (InputDevice_ctor :: 'd InputDevice)))
             = Inl (IOException msg))"
proof -
  have fresh: "\<not> mOpen (InputDevice_ctor :: 'd InputDevice)"
    by (simp add: InputDevice_ctor_def)
  then have closed: "\<not> mOpen (after FILE cs (InputDevice_ctor :: 'd InputDevice))"
    by (simp add: after_mOpen)
  then have "\<exists>msg. fst (update FILE (after FILE cs (InputDevice_ctor :: 'd InputDevice)))
                     = Inl (IOException msg)"
    by (simp add: update_closed)
  with fresh closed show ?thesis
    by (simp add: isOpen_def update_state)
qed

subsection \<open>Relational properties\<close>

text \<open>
  C9: what \<^verbatim>\<open>update()\<close> and \<^verbatim>\<open>isOpen()\<close> produce depends on the open flag alone: on two
  devices with the same open flag, whatever their \<^verbatim>\<open>delay\<close> and \<^verbatim>\<open>enabled\<close>,
  \<^verbatim>\<open>update()\<close> succeeds on one exactly when it succeeds on the other (it even throws the
  same exception), and \<^verbatim>\<open>isOpen()\<close> returns the same value.
\<close>

theorem outcome_depends_on_open_flag:
  assumes "mOpen s = mOpen t"
  shows "((fst (update FILE s) = Inr ()) = (fst (update FILE t) = Inr ())) \<and>
         fst (update FILE s) = fst (update FILE t) \<and>
         fst (isOpen s) = fst (isOpen t)"
  using assms by (cases "mOpen t") (simp_all add: isOpen_def update_closed update_open)

theorem outcome_depends_on_open_flag_witness:
  "fst (update ''InputDevice.cpp'' \<lparr>delay = 0 :: int, mOpen = False, enabled = True\<rparr>)
     = fst (update ''InputDevice.cpp'' \<lparr>delay = 250 :: int, mOpen = False, enabled = False\<rparr>) \<and>
   fst (isOpen \<lparr>delay = 0 :: int, mOpen = False, enabled = True\<rparr>)
     = fst (isOpen \<lparr>delay = 250 :: int, mOpen = False, enabled = False\<rparr>)"
proof -
  have h: "mOpen \<lparr>delay = 0 :: int, mOpen = False, enabled = True\<rparr>
             = mOpen \<lparr>delay = 250 :: int, mOpen = False, enabled = False\<rparr>"
    by simp
  show ?thesis
    using outcome_depends_on_open_flag [OF h, of "''InputDevice.cpp''"] by simp
qed

text \<open>
  C10: \<^verbatim>\<open>update()\<close> is idempotent: for every device, a second call right after the
  first produces what the first produced (the same return or the same exception) and
  leaves the object as the first call left it.
\<close>

theorem update_idempotent:
  "fst (update FILE (snd (update FILE this))) = fst (update FILE this) \<and>
   snd (update FILE (snd (update FILE this))) = snd (update FILE this)"
  by (simp add: update_state)

end
